theory Spec2Isabelle
  imports Complex_Main
begin

section \<open>Values of the page: JSON, errors, network replies\<close>

text \<open>
  The page (\<^verbatim>\<open>src/app/page.tsx\<close>) is untyped: what \<^verbatim>\<open>response.json()\<close> and
  \<^verbatim>\<open>JSON.parse\<close> hand back is any JSON value, and the code reads it with property
  accesses. A value of the page is therefore a JSON value; \<^verbatim>\<open>undefined\<close> is
  \<open>None\<close> of \<open>json option\<close>. An object is the list of its own properties, looked up
  with \<open>map_of\<close>. A string is a list of characters with codes below 256; of a number
  only its being zero is read. A handler is run from its start to its end, one at a time.
\<close>

datatype json =
    JNull
  | JBool bool
  | JNum rat
  | JStr string
  | JArr "json list"
  | JObj "(string \<times> json) list"

text \<open>
  Exceptions: \<^verbatim>\<open>new Error(msg)\<close>, the \<^verbatim>\<open>SyntaxError\<close> of a JSON parser, the
  \<^verbatim>\<open>TypeError\<close> of the engine (reading a property of \<^verbatim>\<open>null\<close>, spreading what is
  not iterable, calling what is not a function), whatever \<^verbatim>\<open>fetch\<close> rejects with,
  and the error React throws for an object given as a child
  (\<^verbatim>\<open>Objects are not valid as a React child\<close>).
\<close>

datatype js_error =
    Error string
  | SyntaxError
  | TypeError
  | TransportError string
  | InvalidChild

text \<open>
  A response as far as the code reads it: \<^verbatim>\<open>response.ok\<close> and the result of
  \<^verbatim>\<open>await response.json()\<close>, which throws when the body is not JSON.
\<close>

record response =
  ok :: bool
  json_body :: "js_error + json"

datatype reply = Throws js_error | Responds response

text \<open>
  What the fetch routine does to the outside: a request (tagged with the number of
  questions it asks for), a \<^verbatim>\<open>setTimeout\<close> wait in milliseconds, and the
  \<^verbatim>\<open>console.error\<close> of the handler.
\<close>

datatype event = Request nat | Sleep nat | ConsoleError js_error

section \<open>Reading a JSON value the way the code does\<close>

text \<open>\<^verbatim>\<open>v.k\<close> for a value that is neither \<^verbatim>\<open>null\<close> nor \<^verbatim>\<open>undefined\<close>, for the
  property names the page uses (none of them is inherited from a prototype).\<close>

fun member_of :: "json \<Rightarrow> string \<Rightarrow> json option" where
  "member_of (JObj kvs) k = map_of kvs k"
| "member_of v k = None"

text \<open>\<^verbatim>\<open>v[0]\<close> for such a value: the first element of an array, the first character of a
  string, the property \<^verbatim>\<open>"0"\<close> of an object.\<close>

fun index0 :: "json \<Rightarrow> json option" where
  "index0 (JArr xs) = (case xs of [] \<Rightarrow> None | x # _ \<Rightarrow> Some x)"
| "index0 (JStr s) = (case s of [] \<Rightarrow> None | c # _ \<Rightarrow> Some (JStr [c]))"
| "index0 (JObj kvs) = map_of kvs ''0''"
| "index0 v = None"

text \<open>Optional chaining: \<^verbatim>\<open>v?.k\<close> and \<^verbatim>\<open>v?.[0]\<close> are \<^verbatim>\<open>undefined\<close> when \<^verbatim>\<open>v\<close> is
  \<^verbatim>\<open>null\<close> or \<^verbatim>\<open>undefined\<close>.\<close>

fun opt_member :: "json option \<Rightarrow> string \<Rightarrow> json option" where
  "opt_member None k = None"
| "opt_member (Some JNull) k = None"
| "opt_member (Some v) k = member_of v k"

fun opt_index0 :: "json option \<Rightarrow> json option" where
  "opt_index0 None = None"
| "opt_index0 (Some JNull) = None"
| "opt_index0 (Some v) = index0 v"

text \<open>\<^verbatim>\<open>result.candidates?.[0]?.content?.parts?.[0]?.text\<close>: the first access is not
  optional, so a \<^verbatim>\<open>null\<close> result throws.\<close>

definition extract_text :: "json \<Rightarrow> js_error + json option" where
  "extract_text result =
     (if result = JNull then Inl TypeError
      else Inr (opt_member (opt_index0 (opt_member (opt_member
             (opt_index0 (member_of result ''candidates'')) ''content'') ''parts'')) ''text''))"

text \<open>Truthiness of a value, as \<^verbatim>\<open>!jsonText\<close> tests it.\<close>

fun truthy :: "json \<Rightarrow> bool" where
  "truthy JNull = False"
| "truthy (JBool b) = b"
| "truthy (JNum n) = (n \<noteq> 0)"
| "truthy (JStr s) = (s \<noteq> [])"
| "truthy (JArr xs) = True"
| "truthy (JObj kvs) = True"

section \<open>The fetch routine\<close>

text \<open>
  The retry loop of \<^verbatim>\<open>_fetchQuizQuestions\<close>:
  \<^verbatim>\<open>
  let response;
  for (let i = 0; i < 3; i++) {
      try {
          response = await fetch(URL, {...});
          if (response.ok) { break; }
      } catch (e) {
          if (i < 2) { await new Promise(resolve => setTimeout(resolve, Math.pow(2, i) * 1000)); }
          else { throw e; }
      }
  }
  \<close>
  The transport \<open>tr\<close> gives the reply to the \<open>i\<close>-th call of \<^verbatim>\<open>fetch\<close>. The loop
  returns the exception it rethrows or the value of \<^verbatim>\<open>response\<close> at its end, with the
  events in order. A thrown attempt leaves \<^verbatim>\<open>response\<close> as it was.
\<close>

function retry_loop ::
  "(nat \<Rightarrow> reply) \<Rightarrow> nat \<Rightarrow> nat \<Rightarrow> response option \<Rightarrow> (js_error + response option) \<times> event list"
where
  "retry_loop tr count i resp =
     (if i < 3 then
        (case tr i of
           Responds r \<Rightarrow>
             if ok r then (Inr (Some r), [Request count])
             else (case retry_loop tr count (i + 1) (Some r) of
                     (out, evs) \<Rightarrow> (out, Request count # evs))
         | Throws e \<Rightarrow>
             if i < 2 then
               (case retry_loop tr count (i + 1) resp of
                  (out, evs) \<Rightarrow> (out, Request count # Sleep (2 ^ i * 1000) # evs))
             else (Inl e, [Request count]))
      else (Inr resp, []))"
  by pat_completeness auto
termination
  by (relation "measure (\<lambda>(tr, count, i, resp). 3 - i)") auto

declare retry_loop.simps [simp del]

text \<open>
  After the loop:
  \<^verbatim>\<open>
  const result = await response.json();
  const jsonText = result.candidates?.[0]?.content?.parts?.[0]?.text;
  if (!jsonText) { throw new Error("API returned an empty or malformed response structure."); }
  const parsedData = JSON.parse(jsonText);
  \<close>
  \<^verbatim>\<open>JSON.parse\<close> is the platform's; it is the parameter \<open>parse\<close>, from the value it is
  given to the value it returns or the exception it throws.
\<close>

definition malformed_message :: string where
  "malformed_message = ''API returned an empty or malformed response structure.''"

definition decode :: "(json \<Rightarrow> js_error + json) \<Rightarrow> response option \<Rightarrow> js_error + json" where
  "decode parse resp =
     (case resp of
        None \<Rightarrow> Inl TypeError
      | Some r \<Rightarrow>
          (case json_body r of
             Inl e \<Rightarrow> Inl e
           | Inr result \<Rightarrow>
               (case extract_text result of
                  Inl e \<Rightarrow> Inl e
                | Inr None \<Rightarrow> Inl (Error malformed_message)
                | Inr (Some jsonText) \<Rightarrow>
                    if \<not> truthy jsonText then Inl (Error malformed_message)
                    else parse jsonText)))"

text \<open>The body of the \<^verbatim>\<open>try\<close> block up to \<^verbatim>\<open>parsedData\<close>: the exception that reaches
  the \<^verbatim>\<open>catch\<close>, or the parsed data that is handed to \<^verbatim>\<open>updateData\<close>.\<close>

definition fetch_try ::
  "(json \<Rightarrow> js_error + json) \<Rightarrow> (nat \<Rightarrow> reply) \<Rightarrow> nat \<Rightarrow> (js_error + json) \<times> event list"
where
  "fetch_try parse tr count =
     (case retry_loop tr count 0 None of
        (Inl e, evs) \<Rightarrow> (Inl e, evs)
      | (Inr resp, evs) \<Rightarrow> (decode parse resp, evs))"

section \<open>The component \<^verbatim>\<open>QuizDisplay\<close>\<close>

text \<open>\<^verbatim>\<open>setUserAnswers(prev => ({...prev, [questionIndex]: selectedOption}))\<close>\<close>

definition handleOptionClick :: "nat \<Rightarrow> json \<Rightarrow> (nat \<rightharpoonup> json) \<Rightarrow> (nat \<rightharpoonup> json)" where
  "handleOptionClick questionIndex selectedOption prev = prev(questionIndex \<mapsto> selectedOption)"

text \<open>
  The click handler of an option of question \<open>qIndex\<close>:
  \<^verbatim>\<open>
  const selectedAnswer = userAnswers[qIndex];
  const isAnswered = selectedAnswer !== undefined;
  onClick={() => !isAnswered && handleOptionClick(qIndex, option)}
  \<close>
\<close>

definition isAnswered :: "(nat \<rightharpoonup> json) \<Rightarrow> nat \<Rightarrow> bool" where
  "isAnswered answers qIndex = (case answers qIndex of None \<Rightarrow> False | Some v \<Rightarrow> True)"

definition onClick :: "nat \<Rightarrow> json \<Rightarrow> (nat \<rightharpoonup> json) \<Rightarrow> (nat \<rightharpoonup> json)" where
  "onClick qIndex option answers =
     (if isAnswered answers qIndex then answers else handleOptionClick qIndex option answers)"

text \<open>
  \<^verbatim>\<open>userAnswers[index] === q.correctAnswer\<close>. Reading \<^verbatim>\<open>q.correctAnswer\<close> throws when
  \<^verbatim>\<open>q\<close> is \<^verbatim>\<open>null\<close>. Strict equality compares primitive values by value and arrays and
  objects by identity; an answer is an element of \<^verbatim>\<open>q.options\<close> and \<^verbatim>\<open>q.correctAnswer\<close>
  another node of the parsed data, so two of those are never the same object.
\<close>

fun correctAnswer_of :: "json \<Rightarrow> js_error + json option" where
  "correctAnswer_of JNull = Inl TypeError"
| "correctAnswer_of q = Inr (member_of q ''correctAnswer'')"

fun strict_eq :: "json option \<Rightarrow> json option \<Rightarrow> bool" where
  "strict_eq None None = True"
| "strict_eq (Some JNull) (Some JNull) = True"
| "strict_eq (Some (JBool a)) (Some (JBool b)) = (a = b)"
| "strict_eq (Some (JNum a)) (Some (JNum b)) = (a = b)"
| "strict_eq (Some (JStr a)) (Some (JStr b)) = (a = b)"
| "strict_eq a b = False"

text \<open>
  \<^verbatim>\<open>
  const calculateScore = () => {
    let score = 0;
    quizData.forEach((q, index) => { if (userAnswers[index] === q.correctAnswer) { score++; } });
    return score;
  };
  \<close>
  \<open>score_loop\<close> is the \<^verbatim>\<open>forEach\<close> from position \<open>index\<close> on; only an array has
  \<^verbatim>\<open>forEach\<close>.
\<close>

fun score_loop :: "json list \<Rightarrow> nat \<Rightarrow> (nat \<rightharpoonup> json) \<Rightarrow> nat \<Rightarrow> js_error + nat" where
  "score_loop [] index answers score = Inr score"
| "score_loop (q # qs) index answers score =
     (case correctAnswer_of q of
        Inl e \<Rightarrow> Inl e
      | Inr c \<Rightarrow>
          score_loop qs (index + 1) answers
            (if strict_eq (answers index) c then score + 1 else score))"

fun calculateScore :: "json \<Rightarrow> (nat \<rightharpoonup> json) \<Rightarrow> js_error + nat" where
  "calculateScore (JArr qs) answers = score_loop qs 0 answers 0"
| "calculateScore v answers = Inl TypeError"

text \<open>\<^verbatim>\<open>quizData.length\<close> of an array, the total the display shows next to the score:
  \<^verbatim>\<open>Your score: {score} / {quizData.length}\<close>.\<close>

fun score_line :: "json \<Rightarrow> (nat \<rightharpoonup> json) \<Rightarrow> js_error + nat \<times> nat" where
  "score_line (JArr qs) answers =
     (case calculateScore (JArr qs) answers of Inl e \<Rightarrow> Inl e | Inr score \<Rightarrow> Inr (score, length qs))"
| "score_line v answers = Inl TypeError"

text \<open>
  What \<^verbatim>\<open>QuizDisplay\<close> does each time it is rendered, with the answers it holds:
  \<^verbatim>\<open>
  if (!quizData || quizData.length === 0) { return (<div>No questions ...</div>); }
  const score = calculateScore();
  return (<div> ... {quizData.length} ... {score} / {quizData.length} ...
    {quizData.map((quizItem, qIndex) => { ...
        <p>{qIndex + 1}. {quizItem.question}</p>
        {quizItem.options.map((option, oIndex) => { ... <div ...>{...}. {option}</div> })}
        {isAnswered && (<div>... <span>{quizItem.correctAnswer}</span></div>)} })}
    ... </div>);
  \<close>
  The component has no \<^verbatim>\<open>try\<close> and the page no error boundary, so an exception here
  takes the page down. The body throws a \<^verbatim>\<open>TypeError\<close> when \<^verbatim>\<open>quizData\<close> has no
  \<^verbatim>\<open>forEach\<close>, when an element is \<^verbatim>\<open>null\<close>, and when the \<^verbatim>\<open>options\<close> of an element
  are not an array. React then refuses an object among the children it is given (the
  question, each option, the correct answer of an answered question); strings, numbers,
  booleans, \<^verbatim>\<open>null\<close>, \<^verbatim>\<open>undefined\<close> and arrays of such are children.
\<close>

text \<open>\<^verbatim>\<open>quizData.length === 0\<close>\<close>

fun has_length_zero :: "json \<Rightarrow> bool" where
  "has_length_zero (JArr xs) = (xs = [])"
| "has_length_zero (JStr s) = (s = [])"
| "has_length_zero (JObj kvs) = (map_of kvs ''length'' = Some (JNum 0))"
| "has_length_zero v = False"

text \<open>The array that \<^verbatim>\<open>quizItem.options.map\<close> runs over.\<close>

fun options_of :: "json \<Rightarrow> js_error + json list" where
  "options_of JNull = Inl TypeError"
| "options_of q = (case member_of q ''options'' of Some (JArr os) \<Rightarrow> Inr os | _ \<Rightarrow> Inl TypeError)"

fun valid_child :: "json \<Rightarrow> bool" where
  "valid_child (JObj kvs) = False"
| "valid_child (JArr xs) = list_all valid_child xs"
| "valid_child v = True"

fun valid_opt_child :: "json option \<Rightarrow> bool" where
  "valid_opt_child None = True"
| "valid_opt_child (Some v) = valid_child v"

text \<open>The \<^verbatim>\<open>quizData.map\<close> from position \<open>qIndex\<close> on: the exception of its callback, or
  whether all the children it hands to React are valid.\<close>

fun items_view :: "json list \<Rightarrow> nat \<Rightarrow> (nat \<rightharpoonup> json) \<Rightarrow> js_error + bool" where
  "items_view [] qIndex answers = Inr True"
| "items_view (quizItem # rest) qIndex answers =
     (case options_of quizItem of
        Inl e \<Rightarrow> Inl e
      | Inr os \<Rightarrow>
          (case items_view rest (qIndex + 1) answers of
             Inl e \<Rightarrow> Inl e
           | Inr others \<Rightarrow>
               Inr (valid_opt_child (member_of quizItem ''question'') \<and>
                    list_all valid_child os \<and>
                    (if isAnswered answers qIndex
                     then valid_opt_child (member_of quizItem ''correctAnswer'') else True) \<and>
                    others)))"

definition QuizDisplay :: "json \<Rightarrow> (nat \<rightharpoonup> json) \<Rightarrow> js_error + unit" where
  "QuizDisplay quizData answers =
     (if \<not> truthy quizData then Inr ()
      else if has_length_zero quizData then Inr ()
      else
        (case calculateScore quizData answers of
           Inl e \<Rightarrow> Inl e
         | Inr score \<Rightarrow>
             (case quizData of
                JArr qs \<Rightarrow>
                  (case items_view qs 0 answers of
                     Inl e \<Rightarrow> Inl e
                   | Inr valid \<Rightarrow> if valid then Inr () else Inl InvalidChild)
              | _ \<Rightarrow> Inl TypeError)))"

section \<open>State of the page\<close>

text \<open>
  The state hooks of \<^verbatim>\<open>App\<close> (\<^verbatim>\<open>topic\<close>, \<^verbatim>\<open>difficultyLevel\<close>, \<^verbatim>\<open>quizLanguage\<close>,
  \<^verbatim>\<open>quizData\<close>, \<^verbatim>\<open>loading\<close>, \<^verbatim>\<open>loadingMore\<close>, \<^verbatim>\<open>error\<close>, \<^verbatim>\<open>hasGenerated\<close>) and
  the one of \<^verbatim>\<open>QuizDisplay\<close> (\<^verbatim>\<open>userAnswers\<close>, an object keyed by question index).
  \<^verbatim>\<open>userAnswers\<close> belongs to the mounted \<^verbatim>\<open>QuizDisplay\<close>: it is \<open>None\<close> while the
  component is not rendered and starts as \<^verbatim>\<open>{}\<close> each time it is mounted.
\<close>

record app_state =
  topic :: string
  difficultyLevel :: string
  quizLanguage :: string
  quizData :: json
  loading :: bool
  loadingMore :: bool
  error :: "string option"
  hasGenerated :: bool
  userAnswers :: "(nat \<rightharpoonup> json) option"

text \<open>
  \<^verbatim>\<open>{hasGenerated && !loading && !error && (<QuizDisplay ... />)}\<close>: whether \<^verbatim>\<open>App\<close>
  renders the quiz display.
\<close>

definition shown :: "app_state \<Rightarrow> bool" where
  "shown s = (hasGenerated s \<and> \<not> loading s \<and> (case error s of None \<Rightarrow> True | Some m \<Rightarrow> m = []))"

text \<open>
  Rendering the page. When the display is not shown it is unmounted and its answers are
  gone. When it is shown it keeps its answers, or is mounted with \<^verbatim>\<open>{}\<close>, and its body
  runs: an exception there is the result of the render and the page is lost (\<open>Inl\<close>).
  The rest of the markup of \<^verbatim>\<open>App\<close> shows strings only and does not throw.
\<close>

definition render :: "app_state \<Rightarrow> js_error + app_state" where
  "render s =
     (if shown s then
        (let answers = (case userAnswers s of None \<Rightarrow> Map.empty | Some a \<Rightarrow> a) in
         case QuizDisplay (quizData s) answers of
           Inl e \<Rightarrow> Inl e
         | Inr u \<Rightarrow> Inr (s\<lparr>userAnswers := Some answers\<rparr>))
      else Inr (s\<lparr>userAnswers := None\<rparr>))"

text \<open>A click on an option of question \<open>qIndex\<close> of the mounted display. The click of an
  answered question sets no state; another one sets the answers and the display is
  rendered again.\<close>

definition click_option :: "nat \<Rightarrow> json \<Rightarrow> app_state \<Rightarrow> js_error + app_state" where
  "click_option qIndex option s =
     (case userAnswers s of
        None \<Rightarrow> Inr s
      | Some answers \<Rightarrow>
          if isAnswered answers qIndex then Inr s
          else render (s\<lparr>userAnswers := Some (onClick qIndex option answers)\<rparr>))"

text \<open>\<^verbatim>\<open>topic.trim()\<close>: white space and line terminators are removed at both ends (of the
  characters with codes below 256: tab, line feed, vertical tab, form feed, carriage return,
  space, no-break space).\<close>

definition js_space :: "char \<Rightarrow> bool" where
  "js_space c =
     (c = CHR 0x09 \<or> c = CHR 0x0A \<or> c = CHR 0x0B \<or> c = CHR 0x0C \<or> c = CHR 0x0D \<or>
      c = CHR 0x20 \<or> c = CHR 0xA0)"

definition trim :: "string \<Rightarrow> string" where
  "trim s = rev (dropWhile js_space (rev (dropWhile js_space s)))"

section \<open>Handlers of \<^verbatim>\<open>App\<close>\<close>

definition failure_message :: string where
  "failure_message =
     ''Failed to generate quiz. Please try a different topic or check the console for details.''"

text \<open>\<^verbatim>\<open>isInitial ? setLoading(v) : setLoadingMore(v)\<close>\<close>

definition set_busy :: "bool \<Rightarrow> bool \<Rightarrow> app_state \<Rightarrow> app_state" where
  "set_busy isInitial v s = (if isInitial then s\<lparr>loading := v\<rparr> else s\<lparr>loadingMore := v\<rparr>)"

text \<open>
  \<^verbatim>\<open>_fetchQuizQuestions(count, updateData, isInitial)\<close>:
  \<^verbatim>\<open>
  isInitial ? setLoading(true) : setLoadingMore(true);
  setError(null);
  try { ...; updateData(parsedData); }
  catch (e) { console.error("API or Parsing Error:", e); setError("Failed to generate quiz. ..."); }
  finally { isInitial ? setLoading(false) : setLoadingMore(false); }
  \<close>
  The page is rendered when the handler first awaits and when it ends. \<open>updateData\<close>
  returns the new state, or the exception of a state updater: React runs the updater
  outside the \<^verbatim>\<open>try\<close>, so that exception is not caught and the page is lost (\<open>Inl\<close>).
  A render that throws loses the page as well; the routine itself runs on, so its
  requests, waits and log are the same.
\<close>

definition fetchQuizQuestions ::
  "(json \<Rightarrow> js_error + json) \<Rightarrow> (nat \<Rightarrow> reply) \<Rightarrow> nat \<Rightarrow>
   (json \<Rightarrow> app_state \<Rightarrow> js_error + app_state) \<Rightarrow> bool \<Rightarrow> app_state \<Rightarrow>
   (js_error + app_state) \<times> event list"
where
  "fetchQuizQuestions parse tr count updateData isInitial s =
     (case fetch_try parse tr count of
        (out, evs) \<Rightarrow>
          (case render ((set_busy isInitial True s)\<lparr>error := None\<rparr>) of
             Inl e \<Rightarrow> (Inl e, evs @ (case out of Inl x \<Rightarrow> [ConsoleError x] | Inr d \<Rightarrow> []))
           | Inr s1 \<Rightarrow>
               (case out of
                  Inr parsedData \<Rightarrow>
                    (case updateData parsedData s1 of
                       Inl e \<Rightarrow> (Inl e, evs)
                     | Inr s2 \<Rightarrow> (render (set_busy isInitial False s2), evs))
                | Inl x \<Rightarrow>
                    (render (set_busy isInitial False (s1\<lparr>error := Some failure_message\<rparr>)),
                     evs @ [ConsoleError x]))))"

text \<open>\<^verbatim>\<open>setQuizData(parsedData)\<close>, the \<^verbatim>\<open>updateData\<close> of \<^verbatim>\<open>handleGenerate\<close>.\<close>

definition setQuizData :: "json \<Rightarrow> app_state \<Rightarrow> js_error + app_state" where
  "setQuizData d s = Inr (s\<lparr>quizData := d\<rparr>)"

text \<open>The elements \<^verbatim>\<open>...v\<close> spreads into an array: those of an array, the characters of a
  string; any other JSON value is not iterable.\<close>

fun spread :: "json \<Rightarrow> js_error + json list" where
  "spread (JArr xs) = Inr xs"
| "spread (JStr s) = Inr (map (\<lambda>c. JStr [c]) s)"
| "spread v = Inl TypeError"

text \<open>\<^verbatim>\<open>setQuizData(prev => [...prev, ...newQuestions])\<close>, the \<^verbatim>\<open>updateData\<close> of
  \<^verbatim>\<open>handleLoadMore\<close>.\<close>

definition updateData :: "json \<Rightarrow> app_state \<Rightarrow> js_error + app_state" where
  "updateData newQuestions s =
     (case spread (quizData s) of
        Inl e \<Rightarrow> Inl e
      | Inr prev \<Rightarrow>
          (case spread newQuestions of
             Inl e \<Rightarrow> Inl e
           | Inr new \<Rightarrow> Inr (s\<lparr>quizData := JArr (prev @ new)\<rparr>)))"

text \<open>
  \<^verbatim>\<open>
  const handleGenerate = useCallback(async () => {
    if (!topic.trim()) return;
    setHasGenerated(true);
    setQuizData([]);
    await _fetchQuizQuestions(30, setQuizData, true);
  }, ...);
  \<close>
\<close>

definition handleGenerate ::
  "(json \<Rightarrow> js_error + json) \<Rightarrow> (nat \<Rightarrow> reply) \<Rightarrow> app_state \<Rightarrow> (js_error + app_state) \<times> event list"
where
  "handleGenerate parse tr s =
     (if trim (topic s) = [] then (Inr s, [])
      else fetchQuizQuestions parse tr 30 setQuizData True
             (s\<lparr>hasGenerated := True, quizData := JArr []\<rparr>))"

text \<open>
  \<^verbatim>\<open>
  const handleLoadMore = useCallback(async () => {
    const updateData = (newQuestions) => { setQuizData(prev => [...prev, ...newQuestions]); };
    await _fetchQuizQuestions(10, updateData, false);
  }, ...);
  \<close>
\<close>

definition handleLoadMore ::
  "(json \<Rightarrow> js_error + json) \<Rightarrow> (nat \<Rightarrow> reply) \<Rightarrow> app_state \<Rightarrow> (js_error + app_state) \<times> event list"
where
  "handleLoadMore parse tr s = fetchQuizQuestions parse tr 10 updateData False s"

section \<open>Question records\<close>

text \<open>
  The shape \<^verbatim>\<open>QUIZ_SCHEMA\<close> asks the service for: an array of objects whose required
  properties are \<^verbatim>\<open>question\<close> (a string), \<^verbatim>\<open>options\<close> (an array of strings) and
  \<^verbatim>\<open>correctAnswer\<close> (a string). The schema fixes neither the number of options nor
  that the answer is one of them. \<open>to_json\<close> is such a record as the page holds it.
\<close>

record QuestionRecord =
  question :: string
  options :: "string list"
  correctAnswer :: string

definition to_json :: "QuestionRecord \<Rightarrow> json" where
  "to_json r =
     JObj [(''question'', JStr (question r)),
           (''options'', JArr (map JStr (options r))),
           (''correctAnswer'', JStr (correctAnswer r))]"

text \<open>The envelope of the service around a text:
  \<^verbatim>\<open>{ candidates: [{ content: { parts: [{ text: t }] } }] }\<close>.\<close>

definition envelope :: "json \<Rightarrow> json" where
  "envelope t =
     JObj [(''candidates'',
            JArr [JObj [(''content'', JObj [(''parts'', JArr [JObj [(''text'', t)]])])]])]"

section \<open>Sample values\<close>

text \<open>
  Values for the closed examples further down. \<open>parse_known\<close> is \<^verbatim>\<open>JSON.parse\<close> as far
  as an example needs it: the listed texts with the values they denote; any other
  argument is taken not to parse.
\<close>

definition parse_known :: "(string \<times> json) list \<Rightarrow> json \<Rightarrow> js_error + json" where
  "parse_known table t =
     (case t of
        JStr text \<Rightarrow> (case map_of table text of Some v \<Rightarrow> Inr v | None \<Rightarrow> Inl SyntaxError)
      | _ \<Rightarrow> Inl SyntaxError)"

definition sum_question :: QuestionRecord where
  "sum_question = \<lparr>question = ''2+2?'', options = [''3'', ''4'', ''5'', ''6''], correctAnswer = ''4''\<rparr>"

definition river_question :: QuestionRecord where
  "river_question =
     \<lparr>question = ''Longest river?'', options = [''Nile'', ''Rhine'', ''Volga'', ''Elbe''],
      correctAnswer = ''Nile''\<rparr>"

definition odd_question :: QuestionRecord where
  "odd_question = \<lparr>question = [], options = [''a'', ''a'', ''b''], correctAnswer = ''z''\<rparr>"

definition letter_question :: "string \<Rightarrow> QuestionRecord" where
  "letter_question c =
     \<lparr>question = ''Pick one'', options = [''A'', ''B'', ''C'', ''D''], correctAnswer = c\<rparr>"

definition sum_text :: string where
  \<open>sum_text = ''[{"question":"2+2?","options":["3","4","5","6"],"correctAnswer":"4"}]''\<close>

definition odd_text :: string where
  \<open>odd_text = ''[{"question":"","options":["a","a","b"],"correctAnswer":"z"}]''\<close>

definition sample_parse :: "json \<Rightarrow> js_error + json" where
  "sample_parse =
     parse_known
       [(sum_text, JArr [to_json sum_question]),
        (odd_text, JArr [to_json odd_question]),
        (''{}'', JObj []),
        (''[]'', JArr [])]"

definition offline :: "nat \<Rightarrow> reply" where
  "offline i =
     Throws (TransportError (if i = 0 then ''first'' else if i = 1 then ''second'' else ''third''))"

definition recovering :: "response \<Rightarrow> nat \<Rightarrow> reply" where
  "recovering r i = (if i < 2 then Throws (TransportError ''reset'') else Responds r)"

definition steady :: "response \<Rightarrow> nat \<Rightarrow> reply" where
  "steady r i = Responds r"

definition fresh_page :: app_state where
  "fresh_page =
     \<lparr>topic = ''sums'', difficultyLevel = ''Medium'', quizLanguage = ''English'',
      quizData = JArr [], loading = False, loadingMore = False, error = None,
      hasGenerated = False, userAnswers = None\<rparr>"

definition answered_page :: app_state where
  "answered_page =
     \<lparr>topic = ''rivers'', difficultyLevel = ''Medium'', quizLanguage = ''English'',
      quizData = JArr [to_json river_question], loading = False, loadingMore = False,
      error = None, hasGenerated = True, userAnswers = Some [0 \<mapsto> JStr ''Rhine'']\<rparr>"

section \<open>The retry loop, unfolded\<close>

lemma retry_loop_at3: "retry_loop tr count 3 resp = (Inr resp, [])"
  by (subst retry_loop.simps) simp

lemma retry_loop_at2:
  "retry_loop tr count 2 resp =
     (case tr 2 of
        Responds r \<Rightarrow> (Inr (Some r), [Request count])
      | Throws e \<Rightarrow> (Inl e, [Request count]))"
  by (subst retry_loop.simps) (simp add: retry_loop_at3 split: reply.split)

lemma retry_loop_at1:
  "retry_loop tr count 1 resp =
     (case tr 1 of
        Responds r \<Rightarrow>
          if ok r then (Inr (Some r), [Request count])
          else (case retry_loop tr count 2 (Some r) of (out, evs) \<Rightarrow> (out, Request count # evs))
      | Throws e \<Rightarrow>
          (case retry_loop tr count 2 resp of
             (out, evs) \<Rightarrow> (out, Request count # Sleep 2000 # evs)))"
  by (subst retry_loop.simps) (simp del: One_nat_def split: reply.split)

lemma retry_loop_at0:
  "retry_loop tr count 0 resp =
     (case tr 0 of
        Responds r \<Rightarrow>
          if ok r then (Inr (Some r), [Request count])
          else (case retry_loop tr count 1 (Some r) of (out, evs) \<Rightarrow> (out, Request count # evs))
      | Throws e \<Rightarrow>
          (case retry_loop tr count 1 resp of
             (out, evs) \<Rightarrow> (out, Request count # Sleep 1000 # evs)))"
  by (subst retry_loop.simps) (simp split: reply.split)

lemmas retry_unfold = retry_loop_at0 retry_loop_at1 retry_loop_at2

lemma retry_loop_throw3:
  "tr 0 = Throws e0 \<Longrightarrow> tr 1 = Throws e1 \<Longrightarrow> tr 2 = Throws e2 \<Longrightarrow>
   retry_loop tr count 0 resp =
     (Inl e2, [Request count, Sleep 1000, Request count, Sleep 2000, Request count])"
  unfolding retry_unfold by simp

lemma retry_loop_throw2_then_reply:
  "tr 0 = Throws e0 \<Longrightarrow> tr 1 = Throws e1 \<Longrightarrow> tr 2 = Responds r \<Longrightarrow>
   retry_loop tr count 0 resp =
     (Inr (Some r), [Request count, Sleep 1000, Request count, Sleep 2000, Request count])"
  unfolding retry_unfold by simp

lemma retry_loop_first_ok:
  "tr 0 = Responds r \<Longrightarrow> ok r \<Longrightarrow> retry_loop tr count 0 resp = (Inr (Some r), [Request count])"
  unfolding retry_unfold by simp

lemma retry_loop_not_ok3:
  "tr 0 = Responds r0 \<Longrightarrow> \<not> ok r0 \<Longrightarrow> tr 1 = Responds r1 \<Longrightarrow> \<not> ok r1 \<Longrightarrow>
   tr 2 = Responds r2 \<Longrightarrow>
   retry_loop tr count 0 resp = (Inr (Some r2), [Request count, Request count, Request count])"
  unfolding retry_unfold by simp

lemma decode_envelope:
  "decode parse (Some \<lparr>ok = b, json_body = Inr (envelope t)\<rparr>) =
     (if truthy t then parse t else Inl (Error malformed_message))"
  by (cases t) (simp_all add: decode_def extract_text_def envelope_def)

section \<open>Counting the score\<close>

lemma strict_eq_str: "strict_eq a (Some (JStr c)) = (a = Some (JStr c))"
  by (cases "(a, Some (JStr c))" rule: strict_eq.cases) auto

lemma member_of_record: "member_of (to_json r) ''correctAnswer'' = Some (JStr (correctAnswer r))"
  by (simp add: to_json_def)

lemma correctAnswer_of_not_null:
  "q \<noteq> JNull \<Longrightarrow> correctAnswer_of q = Inr (member_of q ''correctAnswer'')"
  by (cases q) simp_all

lemma to_json_not_null: "JNull \<notin> set (map to_json rs)"
  by (auto simp add: to_json_def)

lemma filter_upt_Suc:
  "length (filter P [0..<Suc n]) =
     (if P 0 then 1 else 0) + length (filter (\<lambda>i. P (Suc i)) [0..<n])"
proof -
  have "[0..<Suc n] = 0 # map Suc [0..<n]"
    by (simp add: upt_conv_Cons map_Suc_upt del: upt_Suc)
  then show ?thesis by (simp add: filter_map comp_def del: upt_Suc)
qed

lemma score_loop_counts:
  "JNull \<notin> set qs \<Longrightarrow>
   score_loop qs k answers sc =
     Inr (sc + length (filter (\<lambda>i. strict_eq (answers (k + i)) (member_of (qs ! i) ''correctAnswer''))
                         [0..<length qs]))"
proof (induction qs arbitrary: k sc)
  case Nil
  then show ?case by simp
next
  case (Cons q qs)
  from Cons.prems have "q \<noteq> JNull" by auto
  then have q: "correctAnswer_of q = Inr (member_of q ''correctAnswer'')"
    by (rule correctAnswer_of_not_null)
  from Cons.prems have rest: "JNull \<notin> set qs" by simp
  show ?case
    by (simp add: q Cons.IH [OF rest] filter_upt_Suc del: upt_Suc)
qed

section \<open>Rendering question records\<close>

lemma options_of_record: "options_of (to_json r) = Inr (map JStr (options r))"
  by (simp add: to_json_def)

lemma list_all_valid_child_strings: "list_all valid_child (map JStr xs)"
  by (induction xs) simp_all

lemma items_view_records: "items_view (map to_json rs) k answers = Inr True"
proof (induction rs arbitrary: k)
  case Nil
  then show ?case by simp
next
  case (Cons r rs)
  have "valid_opt_child (member_of (to_json r) ''question'')"
    and "valid_opt_child (member_of (to_json r) ''correctAnswer'')"
    by (simp_all add: to_json_def)
  then show ?case
    by (simp add: options_of_record list_all_valid_child_strings Cons.IH)
qed

lemma QuizDisplay_records: "QuizDisplay (JArr (map to_json rs)) answers = Inr ()"
  by (simp add: QuizDisplay_def items_view_records score_loop_counts [OF to_json_not_null])

lemma QuizDisplay_records_append:
  "QuizDisplay (JArr (map to_json qs @ map to_json rs)) answers = Inr ()"
  using QuizDisplay_records [of "qs @ rs" answers] by simp

lemma QuizDisplay_one: "QuizDisplay (JArr [to_json r]) answers = Inr ()"
  using QuizDisplay_records [of "[r]" answers] by simp

lemma QuizDisplay_two: "QuizDisplay (JArr [to_json q, to_json r]) answers = Inr ()"
  using QuizDisplay_records [of "[q, r]" answers] by simp

lemma render_fields:
  "render s = Inr s' \<Longrightarrow>
   error s' = error s \<and> quizData s' = quizData s \<and> loading s' = loading s \<and>
   loadingMore s' = loadingMore s \<and> hasGenerated s' = hasGenerated s \<and> topic s' = topic s"
  by (auto simp add: render_def Let_def split: if_splits sum.splits)

lemma render_hidden: "\<not> shown s \<Longrightarrow> render s = Inr (s\<lparr>userAnswers := None\<rparr>)"
  by (simp add: render_def)

lemma render_shown:
  "render s = Inr s' \<Longrightarrow> shown s \<Longrightarrow>
   userAnswers s' = Some (case userAnswers s of None \<Rightarrow> Map.empty | Some a \<Rightarrow> a)"
  by (auto simp add: render_def Let_def split: if_splits sum.splits)

lemma failure_message_not_empty: "failure_message \<noteq> []"
  by (simp add: failure_message_def)

text \<open>The events of the fetch routine do not depend on what the page renders.\<close>

lemma fetchQuizQuestions_events:
  "fetch_try parse tr count = (out, evs) \<Longrightarrow>
   snd (fetchQuizQuestions parse tr count upd isInitial s) =
     evs @ (case out of Inl x \<Rightarrow> [ConsoleError x] | Inr d \<Rightarrow> [])"
  by (simp add: fetchQuizQuestions_def split: sum.split)

section \<open>Retry on thrown attempts\<close>

text \<open>
  C1. When the transport throws on each of the three attempts, the fetch routine makes
  exactly three requests, waits \<open>2^0\<close> seconds after the first and \<open>2^1\<close> seconds after
  the second, with no wait before the first and none after the third, and the exception
  of the third attempt is the one that reaches the handler: it is logged, and the error
  state is set on the page (on every page for generate and on every page of question
  records for load more; on any page that is still there at the end). When the transport
  throws on the first two attempts and answers the third with a successful response that
  decodes to \<open>parsedData\<close>, the outcome is that data after the same three requests and
  two waits, and nothing follows them.
\<close>

theorem fetch_retries_thrown_attempts:
  "(tr 0 = Throws ea \<and> tr 1 = Throws eb \<and> tr 2 = Throws ec \<longrightarrow>
      fetch_try parse tr count =
        (Inl ec, [Request count, Sleep (2 ^ 0 * 1000), Request count, Sleep (2 ^ 1 * 1000),
                  Request count]) \<and>
      snd (fetchQuizQuestions parse tr count upd isInitial s) =
        [Request count, Sleep (2 ^ 0 * 1000), Request count, Sleep (2 ^ 1 * 1000),
         Request count, ConsoleError ec] \<and>
      (isInitial \<or> quizData s = JArr (map to_json qs) \<longrightarrow>
         (\<exists>s'. fetchQuizQuestions parse tr count upd isInitial s =
                 (Inr s', [Request count, Sleep (2 ^ 0 * 1000), Request count,
                           Sleep (2 ^ 1 * 1000), Request count, ConsoleError ec]) \<and>
               error s' = Some failure_message)) \<and>
      (fst (fetchQuizQuestions parse tr count upd isInitial s) = Inr sa \<longrightarrow>
         error sa = Some failure_message)) \<and>
   (tr' 0 = Throws ea' \<and> tr' 1 = Throws eb' \<and> tr' 2 = Responds r \<and> ok r \<and>
    decode parse (Some r) = Inr parsedData \<longrightarrow>
      fetch_try parse tr' count =
        (Inr parsedData, [Request count, Sleep (2 ^ 0 * 1000), Request count,
                          Sleep (2 ^ 1 * 1000), Request count]) \<and>
      snd (fetchQuizQuestions parse tr' count upd isInitial s) =
        [Request count, Sleep (2 ^ 0 * 1000), Request count, Sleep (2 ^ 1 * 1000), Request count])"
proof (intro conjI impI)
  assume h: "tr 0 = Throws ea \<and> tr 1 = Throws eb \<and> tr 2 = Throws ec"
  then have loop: "retry_loop tr count 0 None =
      (Inl ec, [Request count, Sleep 1000, Request count, Sleep 2000, Request count])"
    by (simp add: retry_loop_throw3)
  then show "fetch_try parse tr count =
      (Inl ec, [Request count, Sleep (2 ^ 0 * 1000), Request count, Sleep (2 ^ 1 * 1000),
                Request count])"
    by (simp add: fetch_try_def)
  from loop have ft: "fetch_try parse tr count =
      (Inl ec, [Request count, Sleep 1000, Request count, Sleep 2000, Request count])"
    by (simp add: fetch_try_def)
  show "snd (fetchQuizQuestions parse tr count upd isInitial s) =
        [Request count, Sleep (2 ^ 0 * 1000), Request count, Sleep (2 ^ 1 * 1000),
         Request count, ConsoleError ec]"
    using fetchQuizQuestions_events [OF ft, of upd isInitial s] by simp
  {
    assume "isInitial \<or> quizData s = JArr (map to_json qs)"
    then show "\<exists>s'. fetchQuizQuestions parse tr count upd isInitial s =
                 (Inr s', [Request count, Sleep (2 ^ 0 * 1000), Request count,
                           Sleep (2 ^ 1 * 1000), Request count, ConsoleError ec]) \<and>
               error s' = Some failure_message"
      by (auto simp add: fetchQuizQuestions_def ft render_def shown_def set_busy_def
          QuizDisplay_records failure_message_not_empty)
  }
  {
    assume "fst (fetchQuizQuestions parse tr count upd isInitial s) = Inr sa"
    then show "error sa = Some failure_message"
      by (auto simp add: fetchQuizQuestions_def ft set_busy_def split: sum.splits if_splits
          dest!: render_fields)
  }
next
  assume h: "tr' 0 = Throws ea' \<and> tr' 1 = Throws eb' \<and> tr' 2 = Responds r \<and> ok r \<and>
    decode parse (Some r) = Inr parsedData"
  then have loop: "retry_loop tr' count 0 None =
      (Inr (Some r), [Request count, Sleep 1000, Request count, Sleep 2000, Request count])"
    by (simp add: retry_loop_throw2_then_reply)
  with h have ft: "fetch_try parse tr' count =
      (Inr parsedData, [Request count, Sleep 1000, Request count, Sleep 2000, Request count])"
    by (simp add: fetch_try_def)
  then show "fetch_try parse tr' count =
      (Inr parsedData, [Request count, Sleep (2 ^ 0 * 1000), Request count,
                        Sleep (2 ^ 1 * 1000), Request count])"
    by simp
  show "snd (fetchQuizQuestions parse tr' count upd isInitial s) =
        [Request count, Sleep (2 ^ 0 * 1000), Request count, Sleep (2 ^ 1 * 1000), Request count]"
    using fetchQuizQuestions_events [OF ft, of upd isInitial s] by simp
qed

theorem fetch_retries_thrown_attempts_witness:
  "fetch_try sample_parse offline 30 =
     (Inl (TransportError ''third''),
      [Request 30, Sleep 1000, Request 30, Sleep 2000, Request 30]) \<and>
   fetchQuizQuestions sample_parse offline 30 setQuizData True fresh_page =
     (Inr (fresh_page\<lparr>error := Some failure_message\<rparr>),
      [Request 30, Sleep 1000, Request 30, Sleep 2000, Request 30,
       ConsoleError (TransportError ''third'')]) \<and>
   fetch_try sample_parse (recovering \<lparr>ok = True, json_body = Inr (envelope (JStr sum_text))\<rparr>) 30 =
     (Inr (JArr [to_json sum_question]),
      [Request 30, Sleep 1000, Request 30, Sleep 2000, Request 30])"
proof -
  let ?r = "\<lparr>ok = True, json_body = Inr (envelope (JStr sum_text))\<rparr>"
  have d: "decode sample_parse (Some ?r) = Inr (JArr [to_json sum_question])"
    by (simp add: decode_envelope sample_parse_def parse_known_def sum_text_def)
  have h1: "offline 0 = Throws (TransportError ''first'') \<and>
            offline 1 = Throws (TransportError ''second'') \<and>
            offline 2 = Throws (TransportError ''third'')"
    by (simp add: offline_def)
  have h2: "recovering ?r 0 = Throws (TransportError ''reset'') \<and>
            recovering ?r 1 = Throws (TransportError ''reset'') \<and>
            recovering ?r 2 = Responds ?r \<and> ok ?r \<and>
            decode sample_parse (Some ?r) = Inr (JArr [to_json sum_question])"
    using d by (simp add: recovering_def)
  have th: "fetch_try sample_parse offline 30 =
     (Inl (TransportError ''third''),
      [Request 30, Sleep 1000, Request 30, Sleep 2000, Request 30]) \<and>
     fetch_try sample_parse (recovering ?r) 30 =
     (Inr (JArr [to_json sum_question]),
      [Request 30, Sleep 1000, Request 30, Sleep 2000, Request 30])"
    using h1 h2
      fetch_retries_thrown_attempts [where tr = offline and ea = "TransportError ''first''"
        and eb = "TransportError ''second''" and ec = "TransportError ''third''"
        and tr' = "recovering ?r" and ea' = "TransportError ''reset''"
        and eb' = "TransportError ''reset''" and r = ?r
        and parsedData = "JArr [to_json sum_question]" and parse = sample_parse
        and count = 30 and upd = setQuizData and isInitial = True and s = fresh_page]
    by simp
  then show ?thesis
    by (simp add: fetchQuizQuestions_def render_def shown_def set_busy_def fresh_page_def
        failure_message_not_empty)
qed

section \<open>Failure of a fetch\<close>

text \<open>
  C2, as stated, does not hold. On the page with one question and one recorded answer, a
  generate whose three attempts all throw leaves the questions list empty, not as it was:
  \<^verbatim>\<open>handleGenerate\<close> calls \<^verbatim>\<open>setQuizData([])\<close> before it fetches. On either path the
  error that is set takes the quiz display off the page, and its answers with it.
\<close>

theorem failure_keeps_state_counterexample:
  "quizData answered_page = JArr [to_json river_question] \<and>
   quizData answered_page \<noteq> JArr [] \<and>
   userAnswers answered_page = Some [0 \<mapsto> JStr ''Rhine''] \<and>
   handleGenerate sample_parse offline answered_page =
     (Inr (answered_page\<lparr>quizData := JArr [], error := Some failure_message, userAnswers := None\<rparr>),
      [Request 30, Sleep 1000, Request 30, Sleep 2000, Request 30,
       ConsoleError (TransportError ''third'')]) \<and>
   handleLoadMore sample_parse offline answered_page =
     (Inr (answered_page\<lparr>error := Some failure_message, userAnswers := None\<rparr>),
      [Request 10, Sleep 1000, Request 10, Sleep 2000, Request 10,
       ConsoleError (TransportError ''third'')])"
proof -
  have t: "trim (topic answered_page) \<noteq> []"
    by (simp add: answered_page_def trim_def js_space_def)
  have f: "fetch_try sample_parse offline count =
      (Inl (TransportError ''third''),
       [Request count, Sleep 1000, Request count, Sleep 2000, Request count])" for count
    by (simp add: fetch_try_def retry_loop_throw3 [where tr = offline] offline_def)
  have g: "handleGenerate sample_parse offline answered_page =
     (Inr (answered_page\<lparr>quizData := JArr [], error := Some failure_message, userAnswers := None\<rparr>),
      [Request 30, Sleep 1000, Request 30, Sleep 2000, Request 30,
       ConsoleError (TransportError ''third'')])"
    using t
    by (simp add: handleGenerate_def fetchQuizQuestions_def f render_def shown_def
        set_busy_def failure_message_not_empty answered_page_def)
  have l: "handleLoadMore sample_parse offline answered_page =
     (Inr (answered_page\<lparr>error := Some failure_message, userAnswers := None\<rparr>),
      [Request 10, Sleep 1000, Request 10, Sleep 2000, Request 10,
       ConsoleError (TransportError ''third'')])"
    by (simp add: handleLoadMore_def fetchQuizQuestions_def f render_def shown_def
        set_busy_def failure_message_not_empty answered_page_def QuizDisplay_one)
  show ?thesis
    using g l by (simp add: answered_page_def)
qed

text \<open>
  C2, amended. Every failure of the fetch on the load-more path leaves the questions list
  identical to its value before the call; every failure on the generate path leaves the
  questions list empty, as the handler resets it before fetching. On both paths the
  exception is logged, the error state holds the fixed message, and the quiz display is
  no longer mounted, so no answers mapping is kept. For load more this is what happens on
  every page of question records, and on any page that is still there at the end; for
  generate it is what happens on every page.
\<close>

theorem failure_leaves_questions:
  "(quizData s = JArr (map to_json qs) \<and> fetch_try parse tr 10 = (Inl e, evs) \<longrightarrow>
      (\<exists>s'. handleLoadMore parse tr s = (Inr s', evs @ [ConsoleError e]) \<and>
            quizData s' = quizData s \<and> error s' = Some failure_message \<and>
            userAnswers s' = None)) \<and>
   (fetch_try parse tr 10 = (Inl e, evs) \<and> fst (handleLoadMore parse tr s) = Inr sa \<longrightarrow>
      snd (handleLoadMore parse tr s) = evs @ [ConsoleError e] \<and>
      quizData sa = quizData s \<and> error sa = Some failure_message \<and> userAnswers sa = None) \<and>
   (trim (topic s) \<noteq> [] \<and> fetch_try parse tr 30 = (Inl e, evs) \<longrightarrow>
      (\<exists>s'. handleGenerate parse tr s = (Inr s', evs @ [ConsoleError e]) \<and>
            quizData s' = JArr [] \<and> error s' = Some failure_message \<and>
            userAnswers s' = None))"
proof (intro conjI impI)
  assume "quizData s = JArr (map to_json qs) \<and> fetch_try parse tr 10 = (Inl e, evs)"
  then show "\<exists>s'. handleLoadMore parse tr s = (Inr s', evs @ [ConsoleError e]) \<and>
            quizData s' = quizData s \<and> error s' = Some failure_message \<and>
            userAnswers s' = None"
    by (simp add: handleLoadMore_def fetchQuizQuestions_def render_def shown_def set_busy_def
        QuizDisplay_records failure_message_not_empty)
next
  assume h: "fetch_try parse tr 10 = (Inl e, evs) \<and> fst (handleLoadMore parse tr s) = Inr sa"
  then show "snd (handleLoadMore parse tr s) = evs @ [ConsoleError e]"
    by (simp add: handleLoadMore_def fetchQuizQuestions_events)
  from h obtain sb where
    a: "render ((set_busy False True s)\<lparr>error := None\<rparr>) = Inr sb" and
    b: "render (set_busy False False (sb\<lparr>error := Some failure_message\<rparr>)) = Inr sa"
    by (auto simp add: handleLoadMore_def fetchQuizQuestions_def split: sum.splits)
  have hidden: "\<not> shown (set_busy False False (sb\<lparr>error := Some failure_message\<rparr>))"
    by (simp add: shown_def set_busy_def failure_message_not_empty)
  from b have c: "sa = (set_busy False False (sb\<lparr>error := Some failure_message\<rparr>))\<lparr>userAnswers := None\<rparr>"
    by (simp add: render_hidden [OF hidden])
  from a have "quizData sb = quizData s"
    using render_fields [OF a] by (simp add: set_busy_def)
  with c show "quizData sa = quizData s" and "error sa = Some failure_message"
    and "userAnswers sa = None"
    by (simp_all add: set_busy_def)
next
  assume "trim (topic s) \<noteq> [] \<and> fetch_try parse tr 30 = (Inl e, evs)"
  then show "\<exists>s'. handleGenerate parse tr s = (Inr s', evs @ [ConsoleError e]) \<and>
            quizData s' = JArr [] \<and> error s' = Some failure_message \<and>
            userAnswers s' = None"
    by (simp add: handleGenerate_def fetchQuizQuestions_def render_def shown_def set_busy_def
        failure_message_not_empty)
qed

theorem failure_leaves_questions_witness:
  "fetch_try sample_parse offline 10 =
     (Inl (TransportError ''third''), [Request 10, Sleep 1000, Request 10, Sleep 2000, Request 10]) \<and>
   (case fst (handleLoadMore sample_parse offline answered_page) of
      Inl e \<Rightarrow> None
    | Inr s' \<Rightarrow> Some (quizData s', error s')) =
     Some (JArr [to_json river_question], Some failure_message) \<and>
   (case fst (handleGenerate sample_parse offline answered_page) of
      Inl e \<Rightarrow> None
    | Inr s' \<Rightarrow> Some (quizData s', error s')) =
     Some (JArr [], Some failure_message)"
proof -
  have t: "trim (topic answered_page) \<noteq> []"
    by (simp add: answered_page_def trim_def js_space_def)
  have f: "fetch_try sample_parse offline count =
      (Inl (TransportError ''third''),
       [Request count, Sleep 1000, Request count, Sleep 2000, Request count])" for count
    by (simp add: fetch_try_def retry_loop_throw3 [where tr = offline] offline_def)
  have q: "quizData answered_page = JArr (map to_json [river_question])"
    by (simp add: answered_page_def)
  have more: "\<exists>s'. handleLoadMore sample_parse offline answered_page =
        (Inr s', [Request 10, Sleep 1000, Request 10, Sleep 2000, Request 10] @
                 [ConsoleError (TransportError ''third'')]) \<and>
      quizData s' = quizData answered_page \<and> error s' = Some failure_message \<and>
      userAnswers s' = None"
    using q f [of 10]
      failure_leaves_questions [where parse = sample_parse and tr = offline
        and e = "TransportError ''third''" and s = answered_page and qs = "[river_question]"
        and evs = "[Request 10, Sleep 1000, Request 10, Sleep 2000, Request 10]",
        THEN conjunct1]
    by blast
  have gen: "\<exists>s'. handleGenerate sample_parse offline answered_page =
        (Inr s', [Request 30, Sleep 1000, Request 30, Sleep 2000, Request 30] @
                 [ConsoleError (TransportError ''third'')]) \<and>
      quizData s' = JArr [] \<and> error s' = Some failure_message \<and> userAnswers s' = None"
    using t f [of 30]
      failure_leaves_questions [where parse = sample_parse and tr = offline
        and e = "TransportError ''third''" and s = answered_page
        and evs = "[Request 30, Sleep 1000, Request 30, Sleep 2000, Request 30]",
        THEN conjunct2, THEN conjunct2]
    by blast
  show ?thesis
    using more gen f [of 10] q by auto
qed

section \<open>What a fetched batch holds\<close>

text \<open>
  C3, as stated, does not hold: the page has no check of a record. A batch whose only
  record has an empty question, three options of which two are equal, and a correct answer
  that is none of them is fetched, parsed and shown as it is.
\<close>

theorem invalid_records_dropped_counterexample:
  "question odd_question = [] \<and>
   length (options odd_question) \<noteq> 4 \<and>
   \<not> distinct (options odd_question) \<and>
   correctAnswer odd_question \<notin> set (options odd_question) \<and>
   handleGenerate sample_parse
       (steady \<lparr>ok = True, json_body = Inr (envelope (JStr odd_text))\<rparr>) fresh_page =
     (Inr (fresh_page\<lparr>quizData := JArr [to_json odd_question], hasGenerated := True,
                      userAnswers := Some Map.empty\<rparr>),
      [Request 30])"
proof -
  let ?r = "\<lparr>ok = True, json_body = Inr (envelope (JStr odd_text))\<rparr>"
  have t: "trim (topic fresh_page) \<noteq> []"
    by (simp add: fresh_page_def trim_def js_space_def)
  have d: "decode sample_parse (Some ?r) = Inr (JArr [to_json odd_question])"
    by (simp add: decode_envelope sample_parse_def parse_known_def odd_text_def sum_text_def)
  have f: "fetch_try sample_parse (steady ?r) 30 = (Inr (JArr [to_json odd_question]), [Request 30])"
    by (simp add: fetch_try_def retry_loop_first_ok [where r = ?r] steady_def d)
  have g: "handleGenerate sample_parse (steady ?r) fresh_page =
     (Inr (fresh_page\<lparr>quizData := JArr [to_json odd_question], hasGenerated := True,
                      userAnswers := Some Map.empty\<rparr>),
      [Request 30])"
    using t
    by (simp add: handleGenerate_def fetchQuizQuestions_def f setQuizData_def render_def
        shown_def set_busy_def fresh_page_def QuizDisplay_one)
  show ?thesis
    using g by (simp add: odd_question_def)
qed

text \<open>
  C3, amended. For every successfully fetched and parsed batch, every record of the batch
  reaches the question list, in the order of the response and whatever its question, its
  options and its correct answer are: generate makes the batch the question list, load
  more appends it to the list (to a list of records on every page, and to any list on a
  page that is still there at the end). No record is dropped.
\<close>

theorem fetched_records_all_kept:
  "(trim (topic s) \<noteq> [] \<and> fetch_try parse tr 30 = (Inr (JArr (map to_json rs)), evs) \<longrightarrow>
      (\<exists>s'. handleGenerate parse tr s = (Inr s', evs) \<and>
            quizData s' = JArr (map to_json rs))) \<and>
   (quizData s = JArr (map to_json qs) \<and>
    fetch_try parse tr 10 = (Inr (JArr (map to_json rs)), evs) \<longrightarrow>
      (\<exists>s'. handleLoadMore parse tr s = (Inr s', evs) \<and>
            quizData s' = JArr (map to_json qs @ map to_json rs))) \<and>
   (quizData s = JArr ps \<and> fetch_try parse tr 10 = (Inr (JArr (map to_json rs)), evs) \<and>
    fst (handleLoadMore parse tr s) = Inr sa \<longrightarrow>
      quizData sa = JArr (ps @ map to_json rs))"
proof (intro conjI impI)
  assume "trim (topic s) \<noteq> [] \<and> fetch_try parse tr 30 = (Inr (JArr (map to_json rs)), evs)"
  then show "\<exists>s'. handleGenerate parse tr s = (Inr s', evs) \<and>
            quizData s' = JArr (map to_json rs)"
    by (simp add: handleGenerate_def fetchQuizQuestions_def render_def shown_def set_busy_def
        setQuizData_def QuizDisplay_records)
next
  assume "quizData s = JArr (map to_json qs) \<and>
    fetch_try parse tr 10 = (Inr (JArr (map to_json rs)), evs)"
  then show "\<exists>s'. handleLoadMore parse tr s = (Inr s', evs) \<and>
            quizData s' = JArr (map to_json qs @ map to_json rs)"
    by (simp add: handleLoadMore_def fetchQuizQuestions_def render_def shown_def set_busy_def
        updateData_def QuizDisplay_records QuizDisplay_records_append)
next
  assume h: "quizData s = JArr ps \<and> fetch_try parse tr 10 = (Inr (JArr (map to_json rs)), evs) \<and>
    fst (handleLoadMore parse tr s) = Inr sa"
  then obtain sb sc where
    a: "render ((set_busy False True s)\<lparr>error := None\<rparr>) = Inr sb" and
    b: "updateData (JArr (map to_json rs)) sb = Inr sc" and
    c: "render (set_busy False False sc) = Inr sa"
    by (auto simp add: handleLoadMore_def fetchQuizQuestions_def split: sum.splits)
  from a h have "quizData sb = JArr ps"
    using render_fields [OF a] by (simp add: set_busy_def)
  with b have "quizData sc = JArr (ps @ map to_json rs)"
    by (auto simp add: updateData_def)
  with c show "quizData sa = JArr (ps @ map to_json rs)"
    using render_fields [OF c] by (simp add: set_busy_def)
qed

theorem fetched_records_all_kept_witness:
  "(case fst (handleGenerate sample_parse
                (steady \<lparr>ok = True, json_body = Inr (envelope (JStr odd_text))\<rparr>) answered_page) of
      Inl e \<Rightarrow> None
    | Inr s' \<Rightarrow> Some (quizData s')) = Some (JArr [to_json odd_question]) \<and>
   (case fst (handleLoadMore sample_parse
                (steady \<lparr>ok = True, json_body = Inr (envelope (JStr odd_text))\<rparr>) answered_page) of
      Inl e \<Rightarrow> None
    | Inr s' \<Rightarrow> Some (quizData s')) = Some (JArr [to_json river_question, to_json odd_question])"
proof -
  let ?r = "\<lparr>ok = True, json_body = Inr (envelope (JStr odd_text))\<rparr>"
  have t: "trim (topic answered_page) \<noteq> []"
    by (simp add: answered_page_def trim_def js_space_def)
  have q: "quizData answered_page = JArr (map to_json [river_question])"
    by (simp add: answered_page_def)
  have d: "decode sample_parse (Some ?r) = Inr (JArr (map to_json [odd_question]))"
    by (simp add: decode_envelope sample_parse_def parse_known_def odd_text_def sum_text_def)
  have f: "fetch_try sample_parse (steady ?r) count =
      (Inr (JArr (map to_json [odd_question])), [Request count])" for count
    by (simp add: fetch_try_def retry_loop_first_ok [where r = ?r] steady_def d)
  have gen: "\<exists>s'. handleGenerate sample_parse (steady ?r) answered_page = (Inr s', [Request 30]) \<and>
      quizData s' = JArr (map to_json [odd_question])"
    using t f [of 30]
      fetched_records_all_kept [where parse = sample_parse and tr = "steady ?r"
        and s = answered_page and rs = "[odd_question]" and evs = "[Request 30]",
        THEN conjunct1]
    by blast
  have more: "\<exists>s'. handleLoadMore sample_parse (steady ?r) answered_page = (Inr s', [Request 10]) \<and>
      quizData s' = JArr (map to_json [river_question] @ map to_json [odd_question])"
    using q f [of 10]
      fetched_records_all_kept [where parse = sample_parse and tr = "steady ?r"
        and s = answered_page and rs = "[odd_question]" and evs = "[Request 10]"
        and qs = "[river_question]", THEN conjunct2, THEN conjunct1]
    by blast
  show ?thesis
    using gen more by auto
qed

section \<open>Responses with a non-success status\<close>

text \<open>
  C4. A response whose status is not a success is retried at once, up to three requests
  in all. After the third such response the loop ends with that response in hand, and the
  routine goes on to decode its body as it would a successful one: the outcome of the fetch
  is whatever the body of the third response decodes to, not a failure of the network.
\<close>

theorem non_ok_replies_are_decoded:
  "tr 0 = Responds ra \<and> \<not> ok ra \<and> tr 1 = Responds rb \<and> \<not> ok rb \<and>
   tr 2 = Responds rc \<and> \<not> ok rc \<longrightarrow>
     fetch_try parse tr count =
       (decode parse (Some rc), [Request count, Request count, Request count])"
  by (simp add: fetch_try_def retry_loop_not_ok3 split: sum.split)

theorem non_ok_replies_are_decoded_witness:
  "fetch_try sample_parse
     (steady \<lparr>ok = False, json_body = Inr (JObj [(''error'', JObj [(''code'', JNum 503)])])\<rparr>) 30 =
     (Inl (Error malformed_message), [Request 30, Request 30, Request 30]) \<and>
   fetch_try sample_parse
     (steady \<lparr>ok = False, json_body = Inr (envelope (JStr sum_text))\<rparr>) 30 =
     (Inr (JArr [to_json sum_question]), [Request 30, Request 30, Request 30])"
proof -
  let ?a = "\<lparr>ok = False, json_body = Inr (JObj [(''error'', JObj [(''code'', JNum 503)])])\<rparr>"
  let ?b = "\<lparr>ok = False, json_body = Inr (envelope (JStr sum_text))\<rparr>"
  have da: "decode sample_parse (Some ?a) = Inl (Error malformed_message)"
    by (simp add: decode_def extract_text_def)
  have db: "decode sample_parse (Some ?b) = Inr (JArr [to_json sum_question])"
    by (simp add: decode_envelope sample_parse_def parse_known_def sum_text_def)
  have ha: "steady ?a 0 = Responds ?a \<and> \<not> ok ?a \<and> steady ?a 1 = Responds ?a \<and> \<not> ok ?a \<and>
            steady ?a 2 = Responds ?a \<and> \<not> ok ?a"
    by (simp add: steady_def)
  have hb: "steady ?b 0 = Responds ?b \<and> \<not> ok ?b \<and> steady ?b 1 = Responds ?b \<and> \<not> ok ?b \<and>
            steady ?b 2 = Responds ?b \<and> \<not> ok ?b"
    by (simp add: steady_def)
  show ?thesis
    using ha hb da db
      non_ok_replies_are_decoded [where tr = "steady ?a" and ra = ?a and rb = ?a and rc = ?a
        and parse = sample_parse and count = 30]
      non_ok_replies_are_decoded [where tr = "steady ?b" and ra = ?b and rb = ?b and rc = ?b
        and parse = sample_parse and count = 30]
    by simp
qed

section \<open>A successful first response\<close>

text \<open>
  C5. When the first attempt receives a successful response, no further request is made,
  whatever the response holds: the outcome is what that response decodes to, after exactly
  one request. If the body is JSON other than \<^verbatim>\<open>null\<close> and the text at
  \<^verbatim>\<open>candidates[0].content.parts[0].text\<close> is absent or falsy (empty), the fetch fails with
  the error "API returned an empty or malformed response structure."; if \<^verbatim>\<open>JSON.parse\<close>
  throws on the extracted text, the fetch fails with that exception. But a text that
  \<^verbatim>\<open>JSON.parse\<close> accepts does not fail the fetch when its value is not an array: the
  value is the outcome. When it is an object (without a \<^verbatim>\<open>length\<close> of 0), generate
  makes it the quiz data, sets no error, and the render of the quiz display throws a
  \<^verbatim>\<open>TypeError\<close> outside the \<^verbatim>\<open>try\<close>: the page is lost.
\<close>

theorem first_ok_reply_is_final:
  "tr 0 = Responds r \<and> ok r \<longrightarrow>
     fetch_try parse tr count = (decode parse (Some r), [Request count]) \<and>
     (json_body r = Inr result \<and> extract_text result = Inr None \<longrightarrow>
        decode parse (Some r) = Inl (Error malformed_message)) \<and>
     (json_body r = Inr result \<and> extract_text result = Inr (Some jsonText) \<and> \<not> truthy jsonText \<longrightarrow>
        decode parse (Some r) = Inl (Error malformed_message)) \<and>
     (json_body r = Inr result \<and> extract_text result = Inr (Some jsonText) \<and> truthy jsonText \<longrightarrow>
        decode parse (Some r) = parse jsonText) \<and>
     (decode parse (Some r) = Inr (JObj kvs) \<and> map_of kvs ''length'' \<noteq> Some (JNum 0) \<and>
      trim (topic s) \<noteq> [] \<longrightarrow>
        handleGenerate parse tr s = (Inl TypeError, [Request 30]))"
proof (intro impI)
  assume h: "tr 0 = Responds r \<and> ok r"
  then have ft: "fetch_try parse tr n = (decode parse (Some r), [Request n])" for n
    by (simp add: fetch_try_def retry_loop_first_ok split: sum.split)
  have page: "handleGenerate parse tr s = (Inl TypeError, [Request 30])"
    if "decode parse (Some r) = Inr (JObj kvs) \<and> map_of kvs ''length'' \<noteq> Some (JNum 0) \<and>
        trim (topic s) \<noteq> []"
    using that
    by (simp add: handleGenerate_def fetchQuizQuestions_def ft [of 30] setQuizData_def render_def
        shown_def set_busy_def QuizDisplay_def)
  show "fetch_try parse tr count = (decode parse (Some r), [Request count]) \<and>
     (json_body r = Inr result \<and> extract_text result = Inr None \<longrightarrow>
        decode parse (Some r) = Inl (Error malformed_message)) \<and>
     (json_body r = Inr result \<and> extract_text result = Inr (Some jsonText) \<and> \<not> truthy jsonText \<longrightarrow>
        decode parse (Some r) = Inl (Error malformed_message)) \<and>
     (json_body r = Inr result \<and> extract_text result = Inr (Some jsonText) \<and> truthy jsonText \<longrightarrow>
        decode parse (Some r) = parse jsonText) \<and>
     (decode parse (Some r) = Inr (JObj kvs) \<and> map_of kvs ''length'' \<noteq> Some (JNum 0) \<and>
      trim (topic s) \<noteq> [] \<longrightarrow>
        handleGenerate parse tr s = (Inl TypeError, [Request 30]))"
    using ft [of count] page by (simp add: decode_def)
qed

theorem first_ok_reply_is_final_witness:
  "fetch_try sample_parse (steady \<lparr>ok = True, json_body = Inr (JObj [(''candidates'', JArr [])])\<rparr>) 30 =
     (Inl (Error malformed_message), [Request 30]) \<and>
   fetch_try sample_parse (steady \<lparr>ok = True, json_body = Inr (envelope (JStr []))\<rparr>) 30 =
     (Inl (Error malformed_message), [Request 30]) \<and>
   fetch_try sample_parse (steady \<lparr>ok = True, json_body = Inr (envelope (JStr ''[{''))\<rparr>) 30 =
     (Inl SyntaxError, [Request 30]) \<and>
   malformed_message = ''API returned an empty or malformed response structure.'' \<and>
   fetch_try sample_parse (steady \<lparr>ok = True, json_body = Inr (envelope (JStr ''{}''))\<rparr>) 30 =
     (Inr (JObj []), [Request 30]) \<and>
   handleGenerate sample_parse
       (steady \<lparr>ok = True, json_body = Inr (envelope (JStr ''{}''))\<rparr>) fresh_page =
     (Inl TypeError, [Request 30])"
proof -
  let ?a = "\<lparr>ok = True, json_body = Inr (JObj [(''candidates'', JArr [])])\<rparr>"
  let ?b = "\<lparr>ok = True, json_body = Inr (envelope (JStr []))\<rparr>"
  let ?c = "\<lparr>ok = True, json_body = Inr (envelope (JStr ''[{''))\<rparr>"
  let ?d = "\<lparr>ok = True, json_body = Inr (envelope (JStr ''{}''))\<rparr>"
  have ha: "steady ?a 0 = Responds ?a \<and> ok ?a" by (simp add: steady_def)
  have hb: "steady ?b 0 = Responds ?b \<and> ok ?b" by (simp add: steady_def)
  have hc: "steady ?c 0 = Responds ?c \<and> ok ?c" by (simp add: steady_def)
  have hd: "steady ?d 0 = Responds ?d \<and> ok ?d" by (simp add: steady_def)
  have xa: "json_body ?a = Inr (JObj [(''candidates'', JArr [])]) \<and>
            extract_text (JObj [(''candidates'', JArr [])]) = Inr None"
    by (simp add: extract_text_def)
  have xb: "json_body ?b = Inr (envelope (JStr [])) \<and>
            extract_text (envelope (JStr [])) = Inr (Some (JStr [])) \<and> \<not> truthy (JStr [])"
    by (simp add: extract_text_def envelope_def)
  have xc: "json_body ?c = Inr (envelope (JStr ''[{'')) \<and>
            extract_text (envelope (JStr ''[{'')) = Inr (Some (JStr ''[{'')) \<and> truthy (JStr ''[{'')"
    by (simp add: extract_text_def envelope_def)
  have xd: "json_body ?d = Inr (envelope (JStr ''{}'')) \<and>
            extract_text (envelope (JStr ''{}'')) = Inr (Some (JStr ''{}'')) \<and> truthy (JStr ''{}'')"
    by (simp add: extract_text_def envelope_def)
  have pc: "sample_parse (JStr ''[{'') = Inl SyntaxError"
    by (simp add: sample_parse_def parse_known_def odd_text_def sum_text_def)
  have pd: "sample_parse (JStr ''{}'') = Inr (JObj [])"
    by (simp add: sample_parse_def parse_known_def odd_text_def sum_text_def)
  have t: "trim (topic fresh_page) \<noteq> []"
    by (simp add: fresh_page_def trim_def js_space_def)
  have l: "map_of ([] :: (string \<times> json) list) ''length'' \<noteq> Some (JNum 0)"
    by simp
  show ?thesis
    using ha hb hc hd xa xb xc xd pc pd t l
      first_ok_reply_is_final [where tr = "steady ?a" and r = ?a and parse = sample_parse
        and count = 30 and result = "JObj [(''candidates'', JArr [])]"]
      first_ok_reply_is_final [where tr = "steady ?b" and r = ?b and parse = sample_parse
        and count = 30 and result = "envelope (JStr [])" and jsonText = "JStr []"]
      first_ok_reply_is_final [where tr = "steady ?c" and r = ?c and parse = sample_parse
        and count = 30 and result = "envelope (JStr ''[{'')" and jsonText = "JStr ''[{''"]
      first_ok_reply_is_final [where tr = "steady ?d" and r = ?d and parse = sample_parse
        and count = 30 and result = "envelope (JStr ''{}'')" and jsonText = "JStr ''{}''"
        and kvs = "[]" and s = fresh_page]
    by (simp add: malformed_message_def)
qed

section \<open>Merging a fetched batch\<close>

text \<open>
  C6. Load more is a button of the quiz display, so it runs on a page that shows the
  display (with its answers) and whose quiz data is the list of questions. When its fetch
  succeeds with the records \<open>rs\<close>, the questions list becomes the old list followed by
  \<open>rs\<close>, every old index holds the question it held, and the answers mapping is the
  one from before the call. This is what happens for question records; for any lists of
  JSON values it is the state of the page if the page is still there at the end.
\<close>

theorem load_more_success_appends:
  "(quizData s = JArr (map to_json qs) \<and> shown s \<and> userAnswers s = Some answers \<and>
    fetch_try parse tr 10 = (Inr (JArr (map to_json rs)), evs) \<longrightarrow>
      (\<exists>s'. handleLoadMore parse tr s = (Inr s', evs) \<and>
            quizData s' = JArr (map to_json qs @ map to_json rs) \<and>
            (\<forall>i < length qs. (map to_json qs @ map to_json rs) ! i = map to_json qs ! i) \<and>
            userAnswers s' = Some answers)) \<and>
   (quizData s = JArr ps \<and> shown s \<and> userAnswers s = Some answers \<and>
    fetch_try parse tr 10 = (Inr (JArr ns), evs) \<and>
    fst (handleLoadMore parse tr s) = Inr sa \<longrightarrow>
      snd (handleLoadMore parse tr s) = evs \<and>
      quizData sa = JArr (ps @ ns) \<and>
      (\<forall>i < length ps. (ps @ ns) ! i = ps ! i) \<and>
      userAnswers sa = Some answers)"
proof (intro conjI impI)
  assume "quizData s = JArr (map to_json qs) \<and> shown s \<and> userAnswers s = Some answers \<and>
    fetch_try parse tr 10 = (Inr (JArr (map to_json rs)), evs)"
  then show "\<exists>s'. handleLoadMore parse tr s = (Inr s', evs) \<and>
            quizData s' = JArr (map to_json qs @ map to_json rs) \<and>
            (\<forall>i < length qs. (map to_json qs @ map to_json rs) ! i = map to_json qs ! i) \<and>
            userAnswers s' = Some answers"
    by (auto simp add: handleLoadMore_def fetchQuizQuestions_def updateData_def render_def
        shown_def set_busy_def nth_append QuizDisplay_records QuizDisplay_records_append)
next
  assume h: "quizData s = JArr ps \<and> shown s \<and> userAnswers s = Some answers \<and>
    fetch_try parse tr 10 = (Inr (JArr ns), evs) \<and>
    fst (handleLoadMore parse tr s) = Inr sa"
  then show "snd (handleLoadMore parse tr s) = evs"
    by (simp add: handleLoadMore_def fetchQuizQuestions_events)
  show "\<forall>i < length ps. (ps @ ns) ! i = ps ! i"
    by (simp add: nth_append)
  from h obtain sb sc where
    a: "render ((set_busy False True s)\<lparr>error := None\<rparr>) = Inr sb" and
    b: "updateData (JArr ns) sb = Inr sc" and
    c: "render (set_busy False False sc) = Inr sa"
    by (auto simp add: handleLoadMore_def fetchQuizQuestions_def split: sum.splits)
  from h have sh: "shown ((set_busy False True s)\<lparr>error := None\<rparr>)"
    by (simp add: shown_def set_busy_def)
  from a h have qb: "quizData sb = JArr ps"
    using render_fields [OF a] by (simp add: set_busy_def)
  from h have ub: "userAnswers sb = Some answers"
    using render_shown [OF a sh] by (simp add: set_busy_def)
  from b qb have sc: "sc = sb\<lparr>quizData := JArr (ps @ ns)\<rparr>"
    by (auto simp add: updateData_def)
  from sh have shb: "shown sb"
    using render_fields [OF a] by (simp add: shown_def)
  then have shc: "shown (set_busy False False sc)"
    by (simp add: sc shown_def set_busy_def)
  from sc show "quizData sa = JArr (ps @ ns)"
    using render_fields [OF c] by (simp add: set_busy_def)
  from sc ub show "userAnswers sa = Some answers"
    using render_shown [OF c shc] by (simp add: set_busy_def)
qed

theorem load_more_success_appends_witness:
  "(case handleLoadMore sample_parse
           (steady \<lparr>ok = True, json_body = Inr (envelope (JStr sum_text))\<rparr>) answered_page of
      (Inl e, evs) \<Rightarrow> None
    | (Inr s', evs) \<Rightarrow> Some (quizData s', userAnswers s', evs)) =
     Some (JArr [to_json river_question, to_json sum_question], Some [0 \<mapsto> JStr ''Rhine''],
           [Request 10])"
proof -
  let ?r = "\<lparr>ok = True, json_body = Inr (envelope (JStr sum_text))\<rparr>"
  have d: "decode sample_parse (Some ?r) = Inr (JArr (map to_json [sum_question]))"
    by (simp add: decode_envelope sample_parse_def parse_known_def sum_text_def)
  have f: "fetch_try sample_parse (steady ?r) 10 =
      (Inr (JArr (map to_json [sum_question])), [Request 10])"
    by (simp add: fetch_try_def retry_loop_first_ok [where r = ?r] steady_def d)
  have h: "quizData answered_page = JArr (map to_json [river_question]) \<and> shown answered_page \<and>
           userAnswers answered_page = Some [0 \<mapsto> JStr ''Rhine'']"
    by (simp add: answered_page_def shown_def)
  have "\<exists>s'. handleLoadMore sample_parse (steady ?r) answered_page = (Inr s', [Request 10]) \<and>
      quizData s' = JArr (map to_json [river_question] @ map to_json [sum_question]) \<and>
      (\<forall>i < length [river_question].
          (map to_json [river_question] @ map to_json [sum_question]) ! i =
          map to_json [river_question] ! i) \<and>
      userAnswers s' = Some [0 \<mapsto> JStr ''Rhine'']"
    using h f
      load_more_success_appends [where s = answered_page and qs = "[river_question]"
        and answers = "[0 \<mapsto> JStr ''Rhine'']" and parse = sample_parse and tr = "steady ?r"
        and rs = "[sum_question]" and evs = "[Request 10]", THEN conjunct1]
    by blast
  then show ?thesis
    by auto
qed

text \<open>
  C7. Generate runs its fetch when the trimmed topic is not empty. When that fetch
  succeeds with the records \<open>rs\<close>, the questions list is \<open>rs\<close> in order, whatever it
  was, and the answers mapping is empty, whatever answers were recorded: the quiz display
  is taken off the page while the request is loading and is mounted anew afterwards. This
  is what happens for question records; for any list of JSON values it is the state of the
  page if the page is still there at the end.
\<close>

theorem generate_success_replaces:
  "(trim (topic s) \<noteq> [] \<and> fetch_try parse tr 30 = (Inr (JArr (map to_json rs)), evs) \<longrightarrow>
      (\<exists>s'. handleGenerate parse tr s = (Inr s', evs) \<and>
            quizData s' = JArr (map to_json rs) \<and>
            userAnswers s' = Some Map.empty)) \<and>
   (trim (topic s) \<noteq> [] \<and> fetch_try parse tr 30 = (Inr (JArr ns), evs) \<and>
    fst (handleGenerate parse tr s) = Inr sa \<longrightarrow>
      snd (handleGenerate parse tr s) = evs \<and>
      quizData sa = JArr ns \<and>
      userAnswers sa = Some Map.empty)"
proof (intro conjI impI)
  assume "trim (topic s) \<noteq> [] \<and> fetch_try parse tr 30 = (Inr (JArr (map to_json rs)), evs)"
  then show "\<exists>s'. handleGenerate parse tr s = (Inr s', evs) \<and>
            quizData s' = JArr (map to_json rs) \<and>
            userAnswers s' = Some Map.empty"
    by (simp add: handleGenerate_def fetchQuizQuestions_def setQuizData_def render_def shown_def
        set_busy_def QuizDisplay_records)
next
  assume h: "trim (topic s) \<noteq> [] \<and> fetch_try parse tr 30 = (Inr (JArr ns), evs) \<and>
    fst (handleGenerate parse tr s) = Inr sa"
  then show "snd (handleGenerate parse tr s) = evs"
    by (simp add: handleGenerate_def fetchQuizQuestions_events)
  let ?s0 = "s\<lparr>hasGenerated := True, quizData := JArr []\<rparr>"
  have hid: "\<not> shown ((set_busy True True ?s0)\<lparr>error := None\<rparr>)"
    by (simp add: shown_def set_busy_def)
  let ?sb = "((set_busy True True ?s0)\<lparr>error := None\<rparr>)\<lparr>userAnswers := None\<rparr>"
  from h have c: "render (set_busy True False (?sb\<lparr>quizData := JArr ns\<rparr>)) = Inr sa"
    by (clarsimp simp add: handleGenerate_def fetchQuizQuestions_def render_hidden [OF hid]
        setQuizData_def)
  have sh: "shown (set_busy True False (?sb\<lparr>quizData := JArr ns\<rparr>))"
    by (simp add: shown_def set_busy_def)
  show "quizData sa = JArr ns"
    using render_fields [OF c] by (simp add: set_busy_def)
  show "userAnswers sa = Some Map.empty"
    using render_shown [OF c sh] by (simp add: set_busy_def)
qed

theorem generate_success_replaces_witness:
  "userAnswers answered_page = Some [0 \<mapsto> JStr ''Rhine''] \<and>
   (case handleGenerate sample_parse
           (steady \<lparr>ok = True, json_body = Inr (envelope (JStr sum_text))\<rparr>) answered_page of
      (Inl e, evs) \<Rightarrow> None
    | (Inr s', evs) \<Rightarrow> Some (quizData s', userAnswers s', evs)) =
     Some (JArr [to_json sum_question], Some Map.empty, [Request 30])"
proof -
  let ?r = "\<lparr>ok = True, json_body = Inr (envelope (JStr sum_text))\<rparr>"
  have d: "decode sample_parse (Some ?r) = Inr (JArr (map to_json [sum_question]))"
    by (simp add: decode_envelope sample_parse_def parse_known_def sum_text_def)
  have f: "fetch_try sample_parse (steady ?r) 30 =
      (Inr (JArr (map to_json [sum_question])), [Request 30])"
    by (simp add: fetch_try_def retry_loop_first_ok [where r = ?r] steady_def d)
  have t: "trim (topic answered_page) \<noteq> []"
    by (simp add: answered_page_def trim_def js_space_def)
  have a: "userAnswers answered_page = Some [0 \<mapsto> JStr ''Rhine'']"
    by (simp add: answered_page_def)
  have "\<exists>s'. handleGenerate sample_parse (steady ?r) answered_page = (Inr s', [Request 30]) \<and>
      quizData s' = JArr (map to_json [sum_question]) \<and> userAnswers s' = Some Map.empty"
    using t f
      generate_success_replaces [where s = answered_page and parse = sample_parse
        and tr = "steady ?r" and rs = "[sum_question]" and evs = "[Request 30]",
        THEN conjunct1]
    by blast
  then show ?thesis
    using a by auto
qed

section \<open>Answers and score\<close>

text \<open>
  C8. A click on an option of a question that already has a recorded answer \<open>x\<close>
  changes nothing, whichever option \<open>y\<close> is clicked: the answers mapping is the same and
  the answer of that question is still \<open>x\<close>. So of two clicks on an unanswered question
  the first one stays. On the page, such a click leaves the state as it is.
\<close>

theorem first_answer_is_final:
  "(answers i = Some x \<longrightarrow>
      onClick i y answers = answers \<and> onClick i y answers i = Some x) \<and>
   (answers i = None \<longrightarrow> onClick i y (onClick i x answers) i = Some x) \<and>
   (userAnswers s = Some answers \<and> answers i = Some x \<longrightarrow> click_option i y s = Inr s)"
  by (simp add: onClick_def isAnswered_def handleOptionClick_def click_option_def)

theorem first_answer_is_final_witness:
  "onClick 0 (JStr ''Nile'') [0 \<mapsto> JStr ''Rhine''] 0 = Some (JStr ''Rhine'') \<and>
   onClick 0 (JStr ''Rhine'') (onClick 0 (JStr ''Nile'') Map.empty) 0 = Some (JStr ''Nile'') \<and>
   click_option 0 (JStr ''Nile'') answered_page = Inr answered_page"
proof -
  have h: "userAnswers answered_page = Some [0 \<mapsto> JStr ''Rhine''] \<and>
           [0 \<mapsto> JStr ''Rhine''] (0::nat) = Some (JStr ''Rhine'')"
    by (simp add: answered_page_def)
  have e: "(Map.empty :: nat \<rightharpoonup> json) 0 = None"
    by simp
  show ?thesis
    using h e
      first_answer_is_final [where answers = "[0 \<mapsto> JStr ''Rhine'']" and i = 0
        and x = "JStr ''Rhine''" and y = "JStr ''Nile''" and s = answered_page]
      first_answer_is_final [where answers = "Map.empty" and i = 0
        and x = "JStr ''Nile''" and y = "JStr ''Rhine''" and s = answered_page]
    by simp
qed

text \<open>
  C9. The score the display shows is the pair of a count and a total, computed from the
  questions and the answers alone each time it is asked for: the count is the number of
  indices \<open>i\<close> at which the recorded answer equals the correct answer of question \<open>i\<close>,
  the total is the number of questions. This holds for every list of question records;
  for any list of JSON values without \<^verbatim>\<open>null\<close> the count is by strict equality with
  the \<^verbatim>\<open>correctAnswer\<close> property.
\<close>

theorem score_counts_matching_answers:
  "score_line (JArr (map to_json rs)) answers =
     Inr (length (filter (\<lambda>i. answers i = Some (JStr (correctAnswer (rs ! i)))) [0..<length rs]),
          length rs) \<and>
   (JNull \<notin> set qs \<longrightarrow>
      score_line (JArr qs) answers =
        Inr (length (filter (\<lambda>i. strict_eq (answers i) (member_of (qs ! i) ''correctAnswer''))
                       [0..<length qs]),
             length qs))"
proof (intro conjI impI)
  have "score_loop (map to_json rs) 0 answers 0 =
      Inr (length (filter (\<lambda>i. strict_eq (answers i) (member_of (map to_json rs ! i) ''correctAnswer''))
                     [0..<length rs]))"
    using score_loop_counts [OF to_json_not_null, of rs 0 answers 0] by simp
  moreover have "filter (\<lambda>i. strict_eq (answers i) (member_of (map to_json rs ! i) ''correctAnswer''))
                   [0..<length rs] =
                 filter (\<lambda>i. answers i = Some (JStr (correctAnswer (rs ! i)))) [0..<length rs]"
    by (rule filter_cong) (simp_all add: member_of_record strict_eq_str)
  ultimately show "score_line (JArr (map to_json rs)) answers =
     Inr (length (filter (\<lambda>i. answers i = Some (JStr (correctAnswer (rs ! i)))) [0..<length rs]),
          length rs)"
    by simp
next
  assume "JNull \<notin> set qs"
  then show "score_line (JArr qs) answers =
        Inr (length (filter (\<lambda>i. strict_eq (answers i) (member_of (qs ! i) ''correctAnswer''))
                       [0..<length qs]),
             length qs)"
    using score_loop_counts [of qs 0 answers 0] by simp
qed

theorem score_counts_matching_answers_witness:
  "score_line (JArr (map to_json [letter_question ''B'', letter_question ''C'']))
     [0 \<mapsto> JStr ''B'', 1 \<mapsto> JStr ''D''] = Inr (1, 2) \<and>
   score_line (JArr [to_json (letter_question ''B''), to_json (letter_question ''C'')])
     [1 \<mapsto> JStr ''C''] = Inr (1, 2)"
proof -
  have h: "JNull \<notin> set [to_json (letter_question ''B''), to_json (letter_question ''C'')]"
    by (simp add: to_json_def)
  have u: "[0..<2] = [0, 1]" by (simp add: upt_conv_Cons)
  show ?thesis
    using h
      score_counts_matching_answers [where rs = "[letter_question ''B'', letter_question ''C'']"
        and answers = "[0 \<mapsto> JStr ''B'', 1 \<mapsto> JStr ''D'']"
        and qs = "[to_json (letter_question ''B''), to_json (letter_question ''C'')]"]
      score_counts_matching_answers [where rs = "[]" and answers = "[1 \<mapsto> JStr ''C'']"
        and qs = "[to_json (letter_question ''B''), to_json (letter_question ''C'')]"]
    by (simp add: letter_question_def to_json_def u)
qed

section \<open>Generate with a blank topic\<close>

text \<open>
  C10. When the trimmed topic is empty, generate returns at once: it makes no request and
  logs nothing, and the state of the page, with its questions, answers, error and loading
  flags, is the state before the call.
\<close>

theorem generate_blank_topic_noop:
  "trim (topic s) = [] \<longrightarrow> handleGenerate parse tr s = (Inr s, [])"
  by (simp add: handleGenerate_def)

theorem generate_blank_topic_noop_witness:
  "trim [CHR 0x20, CHR 0x09, CHR 0x0A] = [] \<and>
   handleGenerate sample_parse offline (answered_page\<lparr>topic := [CHR 0x20, CHR 0x09, CHR 0x0A]\<rparr>) =
     (Inr (answered_page\<lparr>topic := [CHR 0x20, CHR 0x09, CHR 0x0A]\<rparr>), [])"
proof -
  have t: "trim (topic (answered_page\<lparr>topic := [CHR 0x20, CHR 0x09, CHR 0x0A]\<rparr>)) = []"
    by (simp add: trim_def js_space_def)
  show ?thesis
    using t
      generate_blank_topic_noop [where s = "answered_page\<lparr>topic := [CHR 0x20, CHR 0x09, CHR 0x0A]\<rparr>"
        and parse = sample_parse and tr = offline]
    by simp
qed

end
